theory Spec2Isabelle
  imports Main "HOL-Library.Sublist" "HOL-Library.Char_ord" "HOL-Library.List_Lexorder"
begin

section \<open>Transport client (client/http\_client.py)\<close>

text \<open>
  A response of the HTTP library as the client reads it: \<open>status_code\<close>, \<open>reason\<close>,
  \<open>url\<close> and \<open>rsp_text\<close> (the attribute \<open>text\<close>) are its attributes; \<open>json_result\<close> is what \<open>rsp.json()\<close>
  gives, \<open>None\<close> standing for the \<open>JSONDecodeError\<close> it raises on a body that does not
  parse. The type \<open>'j\<close> is the type of parsed bodies.
\<close>

record 'j response =
  status_code :: int
  reason :: string
  url :: string
  rsp_text :: string
  json_result :: "'j option"

text \<open>The \<open>text\<close> keyword of the exception is the parsed body or the raw string.\<close>

datatype 'j body = Parsed 'j | RawText string

text \<open>
  \<open>MlflowExportImportException(message, http_status_code=..., **kwargs)\<close>. The constructor
  of the client passes the message and the status only; \<open>_check_response\<close> passes the four
  further keywords, collected in \<open>http_details\<close>. \<open>'p\<close> is the type of the parameters
  handed to \<open>_check_response\<close> (a dict for GET, a serialised body for POST and DELETE).
\<close>

datatype ('p, 'j) http_details =
  HttpDetails (http_reason: string) (uri: string) (params: "'p option") (text_of: "'j body")

record ('p, 'j) MlflowExportImportException =
  message :: string
  http_status_code :: int
  details :: "('p, 'j) http_details option"

definition get_response_text :: "'j response \<Rightarrow> 'j body" where
  "get_response_text rsp =
     (case json_result rsp of Some j \<Rightarrow> Parsed j | None \<Rightarrow> RawText (rsp_text rsp))"

definition check_response ::
  "'j response \<Rightarrow> 'p option \<Rightarrow> ('p, 'j) MlflowExportImportException + unit" where
  "check_response rsp ps =
     (if status_code rsp < 200 \<or> status_code rsp > 299
      then Inl \<lparr> message = reason rsp,
                 http_status_code = status_code rsp,
                 details = Some (HttpDetails (reason rsp) (url rsp) ps (get_response_text rsp)) \<rparr>
      else Inr ())"

text \<open>\<open>os.path.join(a, b)\<close> of the POSIX path module, for two components.\<close>

definition path_join :: "string \<Rightarrow> string \<Rightarrow> string" where
  "path_join a b =
     (if prefix ''/'' b then b
      else if a = [] \<or> last a = CHR ''/'' then a @ b
      else a @ ''/'' @ b)"

text \<open>
  What constructing a client does besides returning: \<open>ConsultEnvironment\<close> is the call
  \<open>mlflow_auth_utils.get_mlflow_host_token()\<close>, \<open>NetworkRequest\<close> a request sent with
  the HTTP library.
\<close>

datatype effect = ConsultEnvironment | NetworkRequest string

record http_client =
  api_uri :: string
  token :: "string option"

text \<open>
  \<open>HttpClient.__init__(api_name, host, token)\<close>. The last argument is the pair that
  \<open>get_mlflow_host_token()\<close> returns in the current process; it is read only when the
  constructor makes that call. The result carries the trace of effects.
\<close>

definition init ::
  "string \<Rightarrow> string option \<Rightarrow> string option \<Rightarrow> (string option \<times> string option)
   \<Rightarrow> (('p, 'j) MlflowExportImportException + http_client) \<times> effect list" where
  "init api_name host tok env =
     (case host of
        None \<Rightarrow>
          (case env of (host', tok') \<Rightarrow>
             (case host' of
                None \<Rightarrow>
                  (Inl \<lparr> message = ''MLflow tracking URI (MLFLOW_TRACKING_URI environment variable) is not configured correctly'',
                          http_status_code = 401, details = None \<rparr>,
                   [ConsultEnvironment])
              | Some h \<Rightarrow>
                  (Inr \<lparr> api_uri = path_join h api_name, token = tok' \<rparr>, [ConsultEnvironment])))
      | Some h \<Rightarrow> (Inr \<lparr> api_uri = path_join h api_name, token = tok \<rparr>, []))"

definition DatabricksHttpClient_init where
  "DatabricksHttpClient_init host tok env = init ''api/2.0'' host tok env"

definition MlflowHttpClient_init where
  "MlflowHttpClient_init host tok env = init ''api/2.0/mlflow'' host tok env"

definition is_network :: "effect \<Rightarrow> bool" where
  "is_network e = (case e of NetworkRequest _ \<Rightarrow> True | ConsultEnvironment \<Rightarrow> False)"

text \<open>
  A request as the client hands it to the HTTP library: the function called
  (\<open>requests.get\<close>, \<open>requests.post\<close>, ...), the URI, and the keywords \<open>headers\<close>,
  \<open>json\<close>, \<open>data\<close> and \<open>timeout\<close>. \<open>'d\<close> is the type of the Python objects that callers
  give as \<open>params\<close> or \<open>data\<close>. What travels as \<open>data\<close>, and what the exception keeps as
  \<open>params\<close>, is such an object as given (\<open>Raw\<close>) or the string that \<open>json.dumps\<close> made
  of it (\<open>Dumped\<close>).
\<close>

datatype verb = GET | POST | PUT | PATCH | DELETE

datatype 'd payload = Raw 'd | Dumped string

record 'd request =
  req_method :: verb
  req_uri :: string
  req_headers :: "(string \<times> string) list"
  req_json :: "'d option"
  req_data :: "'d payload option"
  req_timeout :: int

text \<open>
  What the client takes from outside: the HTTP library, as the function from a request to
  the response received for it (a request that gets no response raises inside the
  library and is not modelled), \<open>json.dumps\<close>, the truth value of a Python object (an
  empty dictionary or string is false), and the constant \<open>USER_AGENT\<close> of the package.
\<close>

record ('d, 'j) http_lib =
  send :: "'d request \<Rightarrow> 'j response"
  dumps :: "'d \<Rightarrow> string"
  is_true :: "'d \<Rightarrow> bool"
  USER_AGENT :: string

definition TIMEOUT :: int where
  "TIMEOUT = 15"

definition mk_headers :: "('d, 'j) http_lib \<Rightarrow> http_client \<Rightarrow> (string \<times> string) list" where
  "mk_headers L c =
     (let headers = [(''User-Agent'', USER_AGENT L)] in
      if (case token c of None \<Rightarrow> False | Some t \<Rightarrow> t \<noteq> [])
      then headers @ [(''Authorization'', ''Bearer '' @ the (token c))]
      else headers)"

definition mk_uri :: "http_client \<Rightarrow> string \<Rightarrow> string" where
  "mk_uri c resource = api_uri c @ ''/'' @ resource"

text \<open>\<open>json.dumps(data) if data else None\<close>\<close>

definition dumps_if_true :: "('d, 'j) http_lib \<Rightarrow> 'd option \<Rightarrow> string option" where
  "dumps_if_true L data =
     (case data of
        None \<Rightarrow> None
      | Some d \<Rightarrow> if is_true L d then Some (dumps L d) else None)"

text \<open>
  The five methods \<open>_get\<close>, \<open>_post\<close>, \<open>_put\<close>, \<open>_patch\<close> and \<open>_delete\<close>: each returns the
  response, or raises what \<open>_check_response\<close> raises. \<open>_put\<close> and \<open>_patch\<close> call
  \<open>_check_response(rsp)\<close>, so that \<open>params\<close> has its default \<open>None\<close>.
\<close>

definition get_rsp ::
  "('d, 'j) http_lib \<Rightarrow> http_client \<Rightarrow> string \<Rightarrow> 'd option
   \<Rightarrow> ('d payload, 'j) MlflowExportImportException + 'j response" where
  "get_rsp L c resource params0 =
     (let uri0 = mk_uri c resource;
          rsp = send L \<lparr> req_method = GET, req_uri = uri0, req_headers = mk_headers L c,
                         req_json = params0, req_data = None, req_timeout = TIMEOUT \<rparr>
      in case check_response rsp (map_option Raw params0) of
           Inl e \<Rightarrow> Inl e
         | Inr _ \<Rightarrow> Inr rsp)"

definition post_rsp ::
  "('d, 'j) http_lib \<Rightarrow> http_client \<Rightarrow> string \<Rightarrow> 'd option
   \<Rightarrow> ('d payload, 'j) MlflowExportImportException + 'j response" where
  "post_rsp L c resource data0 =
     (let uri0 = mk_uri c resource;
          data1 = dumps_if_true L data0;
          rsp = send L \<lparr> req_method = POST, req_uri = uri0, req_headers = mk_headers L c,
                         req_json = None, req_data = map_option Dumped data1,
                         req_timeout = TIMEOUT \<rparr>
      in case check_response rsp (map_option Dumped data1) of
           Inl e \<Rightarrow> Inl e
         | Inr _ \<Rightarrow> Inr rsp)"

definition put_rsp ::
  "('d, 'j) http_lib \<Rightarrow> http_client \<Rightarrow> string \<Rightarrow> 'd option
   \<Rightarrow> ('d payload, 'j) MlflowExportImportException + 'j response" where
  "put_rsp L c resource data0 =
     (let uri0 = mk_uri c resource;
          rsp = send L \<lparr> req_method = PUT, req_uri = uri0, req_headers = mk_headers L c,
                         req_json = None, req_data = map_option Raw data0,
                         req_timeout = TIMEOUT \<rparr>
      in case check_response rsp None of
           Inl e \<Rightarrow> Inl e
         | Inr _ \<Rightarrow> Inr rsp)"

definition patch_rsp ::
  "('d, 'j) http_lib \<Rightarrow> http_client \<Rightarrow> string \<Rightarrow> 'd option
   \<Rightarrow> ('d payload, 'j) MlflowExportImportException + 'j response" where
  "patch_rsp L c resource data0 =
     (let uri0 = mk_uri c resource;
          rsp = send L \<lparr> req_method = PATCH, req_uri = uri0, req_headers = mk_headers L c,
                         req_json = None, req_data = map_option Raw data0,
                         req_timeout = TIMEOUT \<rparr>
      in case check_response rsp None of
           Inl e \<Rightarrow> Inl e
         | Inr _ \<Rightarrow> Inr rsp)"

definition delete_rsp ::
  "('d, 'j) http_lib \<Rightarrow> http_client \<Rightarrow> string \<Rightarrow> 'd option
   \<Rightarrow> ('d payload, 'j) MlflowExportImportException + 'j response" where
  "delete_rsp L c resource data0 =
     (let uri0 = mk_uri c resource;
          data1 = dumps_if_true L data0;
          rsp = send L \<lparr> req_method = DELETE, req_uri = uri0, req_headers = mk_headers L c,
                         req_json = None, req_data = map_option Dumped data1,
                         req_timeout = TIMEOUT \<rparr>
      in case check_response rsp (map_option Dumped data1) of
           Inl e \<Rightarrow> Inl e
         | Inr _ \<Rightarrow> Inr rsp)"

text \<open>
  An HTTP library for running the client on concrete requests: a server that answers GET
  with 200 and every other request with 500, after a redirect to an error page, so that
  the URL of the response is not the URI requested; the error page says whether the
  request had a body. Python objects are dictionaries of strings here, and \<open>dumps\<close>
  writes them as JSON.
\<close>

definition dumps_dict :: "(string \<times> string) list \<Rightarrow> string" where
  "dumps_dict d =
     ''{'' @ concat (map (\<lambda>(k, v). [CHR 0x22] @ k @ [CHR 0x22] @ '': '' @ [CHR 0x22] @ v @ [CHR 0x22]) d)
       @ ''}''"

definition redirecting_lib :: "((string \<times> string) list, string) http_lib" where
  "redirecting_lib =
     \<lparr> send = (\<lambda>req.
         if req_method req = GET
         then \<lparr> status_code = 200, reason = ''OK'', url = req_uri req,
                 rsp_text = ''{}'', json_result = Some ''{}'' \<rparr>
         else \<lparr> status_code = 500, reason = ''Internal Server Error'',
                 url = ''https://host/error.html'',
                 rsp_text = (case req_data req of None \<Rightarrow> ''no body''
                             | Some b \<Rightarrow> ''body received''),
                 json_result = None \<rparr>),
       dumps = dumps_dict,
       is_true = (\<lambda>d. d \<noteq> []),
       USER_AGENT = ''mlflow-export-import'' \<rparr>"

definition sample_client :: http_client where
  "sample_client = \<lparr> api_uri = ''https://host/api/2.0/mlflow'', token = Some ''t'' \<rparr>"


section \<open>Tag dictionaries and the store of mutable dictionaries\<close>

text \<open>
  A Python \<open>dict\<close> keeps its keys in insertion order and holds each key once: an
  association list whose keys are distinct. \<open>d[k] = v\<close> replaces the value of a key that
  is present, in place, and appends a new key at the end.
\<close>

type_synonym tags = "(string \<times> string) list"

fun dict_set :: "('k \<times> 'v) list \<Rightarrow> 'k \<Rightarrow> 'v \<Rightarrow> ('k \<times> 'v) list" where
  "dict_set [] k v = [(k, v)]"
| "dict_set ((k', v') # d) k v =
     (if k' = k then (k', v) # d else (k', v') # dict_set d k v)"

definition dict_get :: "('k \<times> 'v) list \<Rightarrow> 'k \<Rightarrow> 'v option" where
  "dict_get d k = map_of d k"

text \<open>\<open>k.replace(".", "_")\<close>\<close>

definition replace_dot :: "string \<Rightarrow> string" where
  "replace_dot k = map (\<lambda>c. if c = CHR ''.'' then CHR ''_'' else c) k"

text \<open>
  The comprehension \<open>{ k.replace(".","_"): v for k,v in tags.items() }\<close>: the items are
  stored one after the other into a new dictionary, so of two keys that become equal the
  later value stays.
\<close>

definition sanitize_keys :: "tags \<Rightarrow> tags" where
  "sanitize_keys d = foldl (\<lambda>acc (k, v). dict_set acc (replace_dot k) v) [] d"

text \<open>
  Dictionaries are objects: two variables may name the same one, and a store through one
  is seen through the other. The store is the list of all dictionaries allocated so far;
  a reference is an index into it.
\<close>

type_synonym addr = nat
type_synonym heap = "tags list"

definition alloc :: "heap \<Rightarrow> tags \<Rightarrow> addr \<times> heap" where
  "alloc h d = (length h, h @ [d])"

definition deepcopy :: "heap \<Rightarrow> addr \<Rightarrow> addr \<times> heap" where
  "deepcopy h a = alloc h (h ! a)"

definition heap_set :: "heap \<Rightarrow> addr \<Rightarrow> string \<Rightarrow> string \<Rightarrow> heap" where
  "heap_set h a k v = h[a := dict_set (h ! a) k v]"

section \<open>Copy of a model version (copy/copy\_model\_version.py)\<close>

record run =
  run_id :: string
  experiment_id :: string
  start_time :: int
  artifact_uri :: string
  data_tags :: tags

text \<open>A model version as read from the source registry; \<open>mv_tags\<close> refers to its tag dictionary.\<close>

record model_version =
  mv_name :: string
  mv_version :: string
  mv_run_id :: string
  mv_source :: string
  mv_tags :: addr
  mv_description :: string
  mv_current_stage :: string
  mv_aliases :: "string list"

text \<open>
  \<open>MlflowException\<close> carries its error code and its message; every other exception a
  remote call may raise is \<open>OtherException\<close>.
\<close>

datatype exn = MlflowException string string | OtherException string

text \<open>
  The collaborators of the copy that are not part of this module, each as the function of
  its arguments that it is during one copy: the run copier \<open>copy_run._copy\<close>, the source
  client (\<open>get_run\<close>, \<open>tracking_uri\<close>), \<open>copy_utils.get_model_name\<close>, the destination
  client, \<open>model_utils.is_unity_catalog_model\<close> and the constant
  \<open>ExportTags.PREFIX_ROOT\<close>. A call of the destination client that returns \<open>None\<close> here
  has succeeded. \<open>'v\<close> is the type of the model version that the destination returns.
\<close>

record 'v copy_env =
  copy_run :: "string \<Rightarrow> string \<Rightarrow> exn + run"
  src_get_run :: "string \<Rightarrow> exn + run"
  src_tracking_uri :: string
  dst_tracking_uri :: string
  get_model_name :: "string \<Rightarrow> exn + string"
  is_unity_catalog_model :: "string \<Rightarrow> bool"
  PREFIX_ROOT :: string
  create_model_version :: "string \<Rightarrow> string \<Rightarrow> string \<Rightarrow> tags \<Rightarrow> string \<Rightarrow> exn + (string \<times> string)"
  transition_model_version_stage :: "string \<Rightarrow> string \<Rightarrow> string \<Rightarrow> exn option"
  set_registered_model_alias :: "string \<Rightarrow> string \<Rightarrow> string \<Rightarrow> exn option"
  dst_get_model_version :: "string \<Rightarrow> string \<Rightarrow> exn + 'v"

text \<open>
  What one copy does to the outside: the calls of the destination client that succeeded,
  with their arguments (the tags by content, as they are sent), and the lines printed.
\<close>

datatype call =
    CreateModelVersion string string string tags string
  | TransitionStage string string string
  | SetAlias string string string
  | Print string

text \<open>
  Modelled from the spec: \<open>copy_utils.add_tag(src_tags, dst_tags, key, prefix)\<close> is not
  among the sources. The spec has the selected tags of the source run copied into the tag
  set only if present, absence being no error; the copy is stored under the prefixed key.
\<close>

definition add_tag :: "tags \<Rightarrow> heap \<Rightarrow> addr \<Rightarrow> string \<Rightarrow> string \<Rightarrow> heap" where
  "add_tag src_tags h dst key pfx =
     (case dict_get src_tags key of
        None \<Rightarrow> h
      | Some v \<Rightarrow> heap_set h dst (pfx @ ''.'' @ key) v)"

definition add_lineage_tags ::
  "'v copy_env \<Rightarrow> heap \<Rightarrow> model_version \<Rightarrow> run \<Rightarrow> string \<Rightarrow> exn + (addr \<times> heap)" where
  "add_lineage_tags X h src_version run0 dst_model_name =
     (let pfx = PREFIX_ROOT X @ ''.src_run'' in
      case (if mv_run_id src_version \<noteq> run_id run0
            then src_get_run X (mv_run_id src_version) else Inr run0) of
        Inl e \<Rightarrow> Inl e
      | Inr run1 \<Rightarrow>
         (case deepcopy h (mv_tags src_version) of (t, h1) \<Rightarrow>
            let h2 = heap_set h1 t (PREFIX_ROOT X @ ''.src_version.name'') (mv_name src_version);
                h3 = heap_set h2 t (PREFIX_ROOT X @ ''.src_version.version'') (mv_version src_version);
                h4 = heap_set h3 t (PREFIX_ROOT X @ ''.src_version.run_id'') (mv_run_id src_version);
                h5 = heap_set h4 t (PREFIX_ROOT X @ ''.src_client.tracking_uri'') (src_tracking_uri X);
                h6 = heap_set h5 t (PREFIX_ROOT X @ ''.mlflow_exim.dst_client.tracking_uri'')
                       (dst_tracking_uri X);
                h7 = add_tag (data_tags run1) h6 t ''mlflow.databricks.workspaceURL'' pfx;
                h8 = add_tag (data_tags run1) h7 t ''mlflow.databricks.webappURL'' pfx;
                h9 = add_tag (data_tags run1) h8 t ''mlflow.databricks.workspaceID'' pfx;
                h10 = add_tag (data_tags run1) h9 t ''mlflow.user'' pfx
            in if is_unity_catalog_model X dst_model_name
               then Inr (alloc h10 (sanitize_keys (h10 ! t)))
               else Inr (t, h10)))"

text \<open>
  The loop over the aliases inside the \<open>try\<close>: it stops at the first call that raises and
  hands the exception on; the calls made before it have taken effect.
\<close>

fun set_aliases :: "'v copy_env \<Rightarrow> string \<Rightarrow> string \<Rightarrow> string list \<Rightarrow> exn option \<times> call list" where
  "set_aliases X n v [] = (None, [])"
| "set_aliases X n v (a # as) =
     (case set_registered_model_alias X n a v of
        Some e \<Rightarrow> (Some e, [])
      | None \<Rightarrow> (case set_aliases X n v as of (r, cs) \<Rightarrow> (r, SetAlias n a v # cs)))"

text \<open>Truth value of an optional string: \<open>None\<close> and the empty string are false.\<close>

definition truthy :: "'a list option \<Rightarrow> bool" where
  "truthy s = (case s of None \<Rightarrow> False | Some x \<Rightarrow> x \<noteq> [])"

text \<open>
  \<open>_copy_model_version\<close>, lines 58 to 79: the destination run, the source URI, the
  tags, the creation of the model version and the stage transition. The result is the
  name and version of the created model version or the exception raised, the trace of
  what was done at the destination up to then, and the store.
  (\<open>MlflowTrackingUriTweak\<close> sets and restores the tracking URI around the creation and
  is left out.)
\<close>

definition create_and_stage ::
  "'v copy_env \<Rightarrow> heap \<Rightarrow> model_version \<Rightarrow> string \<Rightarrow> string option \<Rightarrow> bool
   \<Rightarrow> (exn + string \<times> string) \<times> call list \<times> heap" where
  "create_and_stage X h src_version dst_model_name dst_experiment_name copy_lineage_tags =
     (case (if truthy dst_experiment_name
            then copy_run X (mv_run_id src_version) (the dst_experiment_name)
            else src_get_run X (mv_run_id src_version)) of
        Inl e \<Rightarrow> (Inl e, [], h)
      | Inr dst_run \<Rightarrow>
     (case get_model_name X (mv_source src_version) of
        Inl e \<Rightarrow> (Inl e, [], h)
      | Inr mlflow_model_name \<Rightarrow>
     (let source_uri = artifact_uri dst_run @ ''/'' @ mlflow_model_name in
      case (if copy_lineage_tags
            then add_lineage_tags X h src_version dst_run dst_model_name
            else Inr (mv_tags src_version, h)) of
        Inl e \<Rightarrow> (Inl e, [], h)
      | Inr (t, h') \<Rightarrow>
     (case create_model_version X dst_model_name source_uri (run_id dst_run) (h' ! t)
             (mv_description src_version) of
        Inl e \<Rightarrow> (Inl e, [], h')
      | Inr (dst_name, dst_ver) \<Rightarrow>
     (let tr1 = [CreateModelVersion dst_model_name source_uri (run_id dst_run) (h' ! t)
                   (mv_description src_version)] in
      if \<not> is_unity_catalog_model X dst_name
      then (case transition_model_version_stage X dst_name dst_ver
                   (mv_current_stage src_version) of
              Some e \<Rightarrow> (Inl e, tr1, h')
            | None \<Rightarrow>
                (Inr (dst_name, dst_ver),
                 tr1 @ [TransitionStage dst_name dst_ver (mv_current_stage src_version)], h'))
      else (Inr (dst_name, dst_ver), tr1, h'))))))"

text \<open>
  \<open>_copy_model_version\<close>, lines 81 to 87 after the lines above: the aliases inside the
  \<open>try\<close>, the handler for \<open>MlflowException\<close>, which prints and goes on, and the final
  \<open>get_model_version\<close>. An exception of another class is not handled.
\<close>

definition copy_model_version ::
  "'v copy_env \<Rightarrow> heap \<Rightarrow> model_version \<Rightarrow> string \<Rightarrow> string option \<Rightarrow> bool
   \<Rightarrow> (exn + 'v) \<times> call list \<times> heap" where
  "copy_model_version X h src_version dst_model_name dst_experiment_name copy_lineage_tags =
     (case create_and_stage X h src_version dst_model_name dst_experiment_name
             copy_lineage_tags of
        (Inl e, tr, h') \<Rightarrow> (Inl e, tr, h')
      | (Inr (dst_name, dst_ver), tr, h') \<Rightarrow>
          (case set_aliases X dst_name dst_ver (mv_aliases src_version) of
             (None, cs) \<Rightarrow> (dst_get_model_version X dst_name dst_ver, tr @ cs, h')
           | (Some (MlflowException code msg), cs) \<Rightarrow>
               (dst_get_model_version X dst_name dst_ver,
                tr @ cs @ [Print (''ERROR: error_code: '' @ code @ ''. Exception: '' @ msg)], h')
           | (Some (OtherException m), cs) \<Rightarrow> (Inl (OtherException m), tr @ cs, h')))"

text \<open>
  An instance of the collaborators, for running the copy on concrete inputs: a source and
  a destination that accept every call, the destination giving version \<open>1\<close> to what it
  creates and returning name and version for a model version fetched. The catalog-style
  test is the one of the notebook \<open>Common.py\<close>, \<open>"." in model_name\<close>.
\<close>

definition accepting_env :: "(string \<times> string) copy_env" where
  "accepting_env =
     \<lparr> copy_run = (\<lambda>rid exp_name. Inr \<lparr> run_id = ''d'' @ rid, experiment_id = exp_name,
                        start_time = 0, artifact_uri = ''dbfs:/dst/d'' @ rid @ ''/artifacts'',
                        data_tags = [] \<rparr>),
       src_get_run = (\<lambda>rid. Inr \<lparr> run_id = rid, experiment_id = ''1'', start_time = 0,
                        artifact_uri = ''dbfs:/src/'' @ rid @ ''/artifacts'',
                        data_tags = [(''mlflow.user'', ''alice'')] \<rparr>),
       src_tracking_uri = ''databricks'',
       dst_tracking_uri = ''databricks'',
       get_model_name = (\<lambda>src. Inr ''model''),
       is_unity_catalog_model = (\<lambda>n. CHR ''.'' \<in> set n),
       PREFIX_ROOT = ''mlflow_exim'',
       create_model_version = (\<lambda>n src rid t d. Inr (n, ''1'')),
       transition_model_version_stage = (\<lambda>n v stage. None),
       set_registered_model_alias = (\<lambda>n a v. None),
       dst_get_model_version = (\<lambda>n v. Inr (n, v)) \<rparr>"

text \<open>The same, with a destination that raises \<open>MlflowException\<close> when alias \<open>b\<close> is set.\<close>

definition alias_b_rejected_env :: "(string \<times> string) copy_env" where
  "alias_b_rejected_env =
     accepting_env\<lparr> set_registered_model_alias :=
       (\<lambda>n a v. if a = ''b''
                 then Some (MlflowException ''ENDPOINT_NOT_FOUND'' ''aliases are not supported'')
                 else None) \<rparr>"

text \<open>A source model version with one tag whose key has a dot, and three aliases.\<close>

definition sample_version :: model_version where
  "sample_version =
     \<lparr> mv_name = ''m'', mv_version = ''3'', mv_run_id = ''r1'',
       mv_source = ''dbfs:/src/r1/artifacts/model'', mv_tags = 0,
       mv_description = ''d'', mv_current_stage = ''Production'',
       mv_aliases = [''a'', ''b'', ''c''] \<rparr>"

definition sample_heap :: heap where
  "sample_heap = [[(''team.name'', ''ml'')]]"

text \<open>The keys of a tag dictionary, and the test that none of them has a dot.\<close>

definition keys :: "tags \<Rightarrow> string list" where
  "keys d = map fst d"

definition no_dot_keys :: "tags \<Rightarrow> bool" where
  "no_dot_keys d = list_all (\<lambda>k. CHR ''.'' \<notin> set k) (keys d)"

text \<open>The tags sent by the calls that create a model version.\<close>

fun created_tags :: "call list \<Rightarrow> tags list" where
  "created_tags [] = []"
| "created_tags (CreateModelVersion n s r t d # cs) = t # created_tags cs"
| "created_tags (c # cs) = created_tags cs"

text \<open>The aliases set on a model version, in order.\<close>

fun aliases_set :: "call list \<Rightarrow> (string \<times> string \<times> string) list" where
  "aliases_set [] = []"
| "aliases_set (SetAlias n a v # cs) = (n, a, v) # aliases_set cs"
| "aliases_set (c # cs) = aliases_set cs"

fun printed :: "call list \<Rightarrow> string list" where
  "printed [] = []"
| "printed (Print l # cs) = l # printed cs"
| "printed (c # cs) = printed cs"

section \<open>Export of an experiment (experiment/export\_experiment.py)\<close>

record Experiment =
  exp_name :: string
  exp_id :: string
  exp_tags :: tags
  lifecycle_stage :: string
  creation_time :: int
  last_update_time :: int

text \<open>The search filter \<open>f"start_time > {run_start_time}"\<close>.\<close>

datatype run_filter = StartTimeGreater int

text \<open>
  The collaborators of the export, each as the function of its arguments that it is
  during one export and taken to return: the tracking client (\<open>get_experiment\<close>,
  \<open>get_run\<close>), the paginated \<open>SearchRunsIterator\<close> (the runs it yields for an experiment
  id, a filter and whether the view type is \<open>ALL\<close>), the single-run exporter
  \<open>export_run\<close> (run id, output directory, \<open>export_deleted_runs\<close>, notebook formats; its
  boolean result) and the two timestamp helpers. \<open>'nf\<close> is the type of notebook formats.
\<close>

record 'nf export_env =
  get_experiment :: "string \<Rightarrow> Experiment"
  get_run :: "string \<Rightarrow> run"
  SearchRunsIterator :: "string \<Rightarrow> run_filter option \<Rightarrow> bool \<Rightarrow> run list"
  export_run :: "string \<Rightarrow> string \<Rightarrow> bool \<Rightarrow> 'nf \<Rightarrow> bool"
  utc_str_to_millis :: "string \<Rightarrow> int"
  fmt_ts_millis :: "int \<Rightarrow> string"

datatype level = INFO | WARNING | ERROR

text \<open>The log lines of the module, by their format string and the values put into it.\<close>

datatype log_msg =
    ExportingExperiment string string "string option" string
  | NotExportingRun string string string "string option"
  | NoRunsExported string string
  | RunsExported nat string string
  | RunsExportedOf nat nat string string
  | RunsFailedOf nat nat string string

record info_attr =
  num_total_runs :: nat
  num_ok_runs :: nat
  num_failed_runs :: nat
  failed_runs :: "string list"

text \<open>
  \<open>exp_dct\<close>: the attributes of the experiment with the tags sorted, and the two formatted
  times stored under \<open>_creation_time\<close> and \<open>_last_update_time\<close>.
\<close>

record exp_dct =
  dct_experiment :: Experiment
  dct_creation_time :: string
  dct_last_update_time :: string

record mlflow_attr =
  attr_experiment :: exp_dct
  attr_runs :: "string list"

text \<open>
  What an export does to the outside, in order: a log line, a run handed to the single-run
  exporter (run id and output directory), the manifest written by
  \<open>io_utils.write_export_file(output_dir, "experiment.json", ...)\<close>.
\<close>

datatype event =
    Log level log_msg
  | ExportRun string string
  | WriteExportFile string string mlflow_attr info_attr

record export_state =
  ok_run_ids :: "string list"
  failed_run_ids :: "string list"
  num_runs_exported :: nat
  events :: "event list"

text \<open>
  The variable \<open>run_start_time\<close> after lines 54 to 56: the milliseconds of the given string
  when that string is true (given and not empty), and otherwise a false value, here
  \<open>None\<close>. As a condition, an integer is true when it is not zero.
\<close>

definition run_start_time_millis :: "'nf export_env \<Rightarrow> string option \<Rightarrow> int option" where
  "run_start_time_millis X s = (if truthy s then Some (utc_str_to_millis X (the s)) else None)"

definition truthy_int :: "int option \<Rightarrow> bool" where
  "truthy_int t = (case t of None \<Rightarrow> False | Some n \<Rightarrow> n \<noteq> 0)"

text \<open>The test at the head of \<open>_export_run\<close>: the run is logged and left out.\<close>

definition skipped :: "int option \<Rightarrow> run \<Rightarrow> bool" where
  "skipped t r = (truthy_int t \<and> start_time r < the t)"

definition export_run_step ::
  "'nf export_env \<Rightarrow> run \<Rightarrow> string \<Rightarrow> int option \<Rightarrow> string option \<Rightarrow> bool \<Rightarrow> 'nf
   \<Rightarrow> export_state \<Rightarrow> export_state" where
  "export_run_step X r output_dir t t_str export_deleted_runs notebook_formats st =
     (if truthy_int t \<and> start_time r < the t
      then st\<lparr> events := events st @
                 [Log INFO (NotExportingRun (run_id r) (experiment_id r)
                              (fmt_ts_millis X (start_time r)) t_str)] \<rparr>
      else
        (let is_success = export_run X (run_id r) (path_join output_dir (run_id r))
                            export_deleted_runs notebook_formats;
             st1 = st\<lparr> events := events st @ [ExportRun (run_id r) (path_join output_dir (run_id r))] \<rparr>
         in if is_success
            then st1\<lparr> ok_run_ids := ok_run_ids st1 @ [run_id r] \<rparr>
            else st1\<lparr> failed_run_ids := failed_run_ids st1 @ [run_id r] \<rparr>))"

text \<open>The loop over the explicit run ids (lines 68 to 72).\<close>

fun export_run_ids ::
  "'nf export_env \<Rightarrow> string list \<Rightarrow> string \<Rightarrow> int option \<Rightarrow> string option \<Rightarrow> bool \<Rightarrow> 'nf
   \<Rightarrow> export_state \<Rightarrow> export_state" where
  "export_run_ids X [] output_dir t t_str d nf st = st"
| "export_run_ids X (rid # rids) output_dir t t_str d nf st =
     (let r = get_run X rid;
          st1 = export_run_step X r output_dir t t_str d nf st;
          st2 = st1\<lparr> num_runs_exported := num_runs_exported st1 + 1 \<rparr>
      in export_run_ids X rids output_dir t t_str d nf st2)"

text \<open>The loop over the runs of the iterator (lines 80 to 83).\<close>

fun export_runs ::
  "'nf export_env \<Rightarrow> run list \<Rightarrow> string \<Rightarrow> int option \<Rightarrow> string option \<Rightarrow> bool \<Rightarrow> 'nf
   \<Rightarrow> export_state \<Rightarrow> export_state" where
  "export_runs X [] output_dir t t_str d nf st = st"
| "export_runs X (r # rs) output_dir t t_str d nf st =
     (let st1 = export_run_step X r output_dir t t_str d nf st;
          st2 = st1\<lparr> num_runs_exported := num_runs_exported st1 + 1 \<rparr>
      in export_runs X rs output_dir t t_str d nf st2)"

text \<open>
  \<open>export_experiment\<close>, with the client already made. The result is the pair returned and
  the events in order. After either loop \<open>j\<close> is the index of the last run, one less than
  the number of runs; it is read only where a run has failed, so a run was enumerated.
\<close>

definition export_experiment ::
  "'nf export_env \<Rightarrow> string \<Rightarrow> string \<Rightarrow> string list option \<Rightarrow> string option \<Rightarrow> bool \<Rightarrow> 'nf
   \<Rightarrow> (nat \<times> nat) \<times> event list" where
  "export_experiment X experiment_id_or_name output_dir run_ids run_start_time
       export_deleted_runs notebook_formats =
     (let run_start_time_str = run_start_time;
          t = run_start_time_millis X run_start_time;
          exp = get_experiment X experiment_id_or_name;
          st0 = \<lparr> ok_run_ids = [], failed_run_ids = [], num_runs_exported = 0,
                  events = [Log INFO (ExportingExperiment (exp_name exp) (exp_id exp)
                                        (dict_get (exp_tags exp) ''mlflow.experimentType'')
                                        (lifecycle_stage exp))] \<rparr>;
          st = (if truthy run_ids
                then export_run_ids X (the run_ids) output_dir t run_start_time_str
                       export_deleted_runs notebook_formats st0
                else export_runs X
                       (SearchRunsIterator X (exp_id exp)
                          (if truthy_int t then Some (StartTimeGreater (the t)) else None)
                          export_deleted_runs)
                       output_dir t run_start_time_str export_deleted_runs notebook_formats st0);
          info = \<lparr> num_total_runs = num_runs_exported st,
                   num_ok_runs = length (ok_run_ids st),
                   num_failed_runs = length (failed_run_ids st),
                   failed_runs = failed_run_ids st \<rparr>;
          dct = \<lparr> dct_experiment = exp\<lparr> exp_tags := sort_key fst (exp_tags exp) \<rparr>,
                  dct_creation_time = fmt_ts_millis X (creation_time exp),
                  dct_last_update_time = fmt_ts_millis X (last_update_time exp) \<rparr>;
          attr = \<lparr> attr_experiment = dct, attr_runs = ok_run_ids st \<rparr>;
          ev1 = events st @ [WriteExportFile output_dir ''experiment.json'' attr info];
          j = num_runs_exported st - 1;
          ev2 = ev1 @
            (if num_runs_exported st = 0
             then [Log WARNING (NoRunsExported (exp_name exp) (exp_id exp))]
             else if length (failed_run_ids st) = 0
             then [Log INFO (RunsExported (length (ok_run_ids st)) (exp_name exp) (exp_id exp))]
             else [Log INFO (RunsExportedOf (length (ok_run_ids st)) j (exp_name exp) (exp_id exp)),
                   Log INFO (RunsFailedOf (length (failed_run_ids st)) j (exp_name exp) (exp_id exp))])
      in ((length (ok_run_ids st), length (failed_run_ids st)), ev2))"

text \<open>
  The runs an export enumerates: those of the explicit ids when the list is true (given
  and not empty), and those the iterator yields otherwise.
\<close>

definition enumerated_runs ::
  "'nf export_env \<Rightarrow> string \<Rightarrow> string list option \<Rightarrow> string option \<Rightarrow> bool \<Rightarrow> run list" where
  "enumerated_runs X experiment_id_or_name run_ids run_start_time export_deleted_runs =
     (let t = run_start_time_millis X run_start_time in
      if truthy run_ids then map (get_run X) (the run_ids)
      else SearchRunsIterator X (exp_id (get_experiment X experiment_id_or_name))
             (if truthy_int t then Some (StartTimeGreater (the t)) else None)
             export_deleted_runs)"

text \<open>The manifests an export wrote, read off its events.\<close>

fun manifests :: "event list \<Rightarrow> (mlflow_attr \<times> info_attr) list" where
  "manifests [] = []"
| "manifests (WriteExportFile d f a i # es) = (a, i) # manifests es"
| "manifests (e # es) = manifests es"

fun log_levels :: "event list \<Rightarrow> level list" where
  "log_levels [] = []"
| "log_levels (Log l m # es) = l # log_levels es"
| "log_levels (e # es) = log_levels es"

text \<open>
  An instance of the collaborators, for running the export on concrete inputs. Experiment
  \<open>1\<close> has four runs: one started a millisecond before the epoch, one on 1970-01-01 at
  01:00, and two on 1970-01-02 at 01:00, of which \<open>r_bad\<close> is the one whose export fails.
  Every other experiment has no run. The iterator applies the filter it is given.
\<close>

definition sample_run :: "string \<Rightarrow> run" where
  "sample_run rid =
     \<lparr> run_id = rid, experiment_id = ''1'',
       start_time = (if rid = ''r_before_epoch'' then - 1
                     else if rid = ''r_day1'' then 3600000 else 90000000),
       artifact_uri = ''dbfs:/src/'' @ rid @ ''/artifacts'', data_tags = [] \<rparr>"

definition sample_env :: "unit export_env" where
  "sample_env =
     \<lparr> get_experiment = (\<lambda>e. \<lparr> exp_name = ''exp'', exp_id = e, exp_tags = [],
                                 lifecycle_stage = ''active'', creation_time = 0,
                                 last_update_time = 0 \<rparr>),
       get_run = sample_run,
       SearchRunsIterator = (\<lambda>eid f all.
         if eid = ''1''
         then filter (\<lambda>r. case f of None \<Rightarrow> True
                          | Some (StartTimeGreater T) \<Rightarrow> T < start_time r)
                (map sample_run [''r_before_epoch'', ''r_day1'', ''r_day2'', ''r_bad''])
         else []),
       export_run = (\<lambda>rid dir del nf. rid \<noteq> ''r_bad''),
       utc_str_to_millis = (\<lambda>s. if s = ''1970-01-02'' then 86400000 else 0),
       fmt_ts_millis = (\<lambda>t. ''1970-01-01 00:00:00'') \<rparr>"

section \<open>Reference resolver (model/import\_model.py, tested by tests/test\_models.py)\<close>

datatype resolve_error = UnrecognizedArtifactPathError

text \<open>
  The rest of \<open>s\<close> after the first place where \<open>m\<close> occurs in it, if it occurs.
\<close>

fun after_first :: "string \<Rightarrow> string \<Rightarrow> string option" where
  "after_first m [] = (if m = [] then Some [] else None)"
| "after_first m (c # cs) =
     (if prefix m (c # cs) then Some (drop (length m) (c # cs)) else after_first m cs)"

text \<open>
  Modelled from the spec: \<open>_extract_model_path(source, run_id)\<close> of
  \<open>mlflow_export_import.model.import_model\<close> is not among the sources, only its test is.
  The spec (4.3) has the artifact URI embed the run id followed by an
  \<open>artifacts/<model-path>\<close> suffix, and the resolver strip everything up to and
  including the run id and the literal \<open>artifacts/\<close> marker and return the trailing path;
  a path with no embedded run id fails with \<open>UnrecognizedArtifactPathError\<close>.
\<close>

definition extract_model_path :: "string \<Rightarrow> string \<Rightarrow> resolve_error + string" where
  "extract_model_path source rid =
     (case after_first (rid @ ''/artifacts/'') source of
        None \<Rightarrow> Inl UnrecognizedArtifactPathError
      | Some p \<Rightarrow> Inr p)"

section \<open>Properties of the transport client\<close>

text \<open>
  Claim C4, as stated, fails: a PUT request submits a dictionary, which the server
  receives; the server redirects and answers with status 500, and the exception raised
  has no parameters and, as its URI, the URL of the response instead of the URI requested.
\<close>

theorem put_error_has_no_params_counterexample:
  "put_rsp redirecting_lib sample_client ''registered-models/alias'' (Some [(''name'', ''m'')])
   = Inl \<lparr> message = ''Internal Server Error'', http_status_code = 500,
           details = Some (HttpDetails ''Internal Server Error'' ''https://host/error.html'' None
                       (RawText ''body received'')) \<rparr>
   \<and> mk_uri sample_client ''registered-models/alias''
       = ''https://host/api/2.0/mlflow/registered-models/alias''"
  by (simp add: put_rsp_def redirecting_lib_def sample_client_def check_response_def
        get_response_text_def mk_uri_def mk_headers_def TIMEOUT_def)

text \<open>
  Claim C4, amended. Each of the five request methods sends one request and raises
  exactly when the status code of the response received is outside 200 to 299; with a
  status code from 200 to 299 it returns the response. The exception raised carries the
  reason phrase as its message, the status code, the reason phrase, the URL of the
  response, and the body of the response, parsed when it parses as JSON and as raw text
  otherwise. For GET it carries the parameters submitted, and for POST and DELETE the
  serialised body submitted (none when the data given is false). For PUT and PATCH the
  statement leaves the parameters carried open.
\<close>

theorem request_raises_iff_not_2xx:
  fixes L :: "('d, 'j) http_lib"
  shows
  "(\<forall>rsp. rsp = send L \<lparr> req_method = GET, req_uri = api_uri c @ ''/'' @ resource,
                          req_headers = mk_headers L c, req_json = d, req_data = None,
                          req_timeout = 15 \<rparr> \<longrightarrow>
      get_rsp L c resource d =
        (if status_code rsp < 200 \<or> 299 < status_code rsp
         then Inl \<lparr> message = reason rsp, http_status_code = status_code rsp,
                    details = Some (HttpDetails (reason rsp) (url rsp) (map_option Raw d)
                      (case json_result rsp of Some j \<Rightarrow> Parsed j
                       | None \<Rightarrow> RawText (rsp_text rsp))) \<rparr>
         else Inr rsp))
   \<and> (\<forall>rsp body. body = map_option Dumped (dumps_if_true L d) \<and>
         rsp = send L \<lparr> req_method = POST, req_uri = api_uri c @ ''/'' @ resource,
                          req_headers = mk_headers L c, req_json = None, req_data = body,
                          req_timeout = 15 \<rparr> \<longrightarrow>
      post_rsp L c resource d =
        (if status_code rsp < 200 \<or> 299 < status_code rsp
         then Inl \<lparr> message = reason rsp, http_status_code = status_code rsp,
                    details = Some (HttpDetails (reason rsp) (url rsp) body
                      (case json_result rsp of Some j \<Rightarrow> Parsed j
                       | None \<Rightarrow> RawText (rsp_text rsp))) \<rparr>
         else Inr rsp))
   \<and> (\<forall>rsp body. body = map_option Dumped (dumps_if_true L d) \<and>
         rsp = send L \<lparr> req_method = DELETE, req_uri = api_uri c @ ''/'' @ resource,
                          req_headers = mk_headers L c, req_json = None, req_data = body,
                          req_timeout = 15 \<rparr> \<longrightarrow>
      delete_rsp L c resource d =
        (if status_code rsp < 200 \<or> 299 < status_code rsp
         then Inl \<lparr> message = reason rsp, http_status_code = status_code rsp,
                    details = Some (HttpDetails (reason rsp) (url rsp) body
                      (case json_result rsp of Some j \<Rightarrow> Parsed j
                       | None \<Rightarrow> RawText (rsp_text rsp))) \<rparr>
         else Inr rsp))
   \<and> (\<forall>rsp. rsp = send L \<lparr> req_method = PUT, req_uri = api_uri c @ ''/'' @ resource,
                          req_headers = mk_headers L c, req_json = None,
                          req_data = map_option Raw d, req_timeout = 15 \<rparr> \<longrightarrow>
      (\<exists>ps. put_rsp L c resource d =
        (if status_code rsp < 200 \<or> 299 < status_code rsp
         then Inl \<lparr> message = reason rsp, http_status_code = status_code rsp,
                    details = Some (HttpDetails (reason rsp) (url rsp) ps
                      (case json_result rsp of Some j \<Rightarrow> Parsed j
                       | None \<Rightarrow> RawText (rsp_text rsp))) \<rparr>
         else Inr rsp)))
   \<and> (\<forall>rsp. rsp = send L \<lparr> req_method = PATCH, req_uri = api_uri c @ ''/'' @ resource,
                          req_headers = mk_headers L c, req_json = None,
                          req_data = map_option Raw d, req_timeout = 15 \<rparr> \<longrightarrow>
      (\<exists>ps. patch_rsp L c resource d =
        (if status_code rsp < 200 \<or> 299 < status_code rsp
         then Inl \<lparr> message = reason rsp, http_status_code = status_code rsp,
                    details = Some (HttpDetails (reason rsp) (url rsp) ps
                      (case json_result rsp of Some j \<Rightarrow> Parsed j
                       | None \<Rightarrow> RawText (rsp_text rsp))) \<rparr>
         else Inr rsp)))"
  by (auto simp: get_rsp_def post_rsp_def delete_rsp_def put_rsp_def patch_rsp_def
        check_response_def get_response_text_def mk_uri_def TIMEOUT_def Let_def)

text \<open>A POST answered with 500 and a GET answered with 200, by the same server.\<close>

theorem request_raises_iff_not_2xx_witness:
  "post_rsp redirecting_lib sample_client ''runs/search'' (Some [(''max_results'', ''5'')])
   = Inl \<lparr> message = ''Internal Server Error'', http_status_code = 500,
           details = Some (HttpDetails ''Internal Server Error'' ''https://host/error.html''
                       (Some (Dumped (dumps_dict [(''max_results'', ''5'')])))
                       (RawText ''body received'')) \<rparr>
   \<and> get_rsp redirecting_lib sample_client ''runs/get'' (Some [(''run_id'', ''r1'')])
     = Inr \<lparr> status_code = 200, reason = ''OK'',
             url = ''https://host/api/2.0/mlflow/runs/get'',
             rsp_text = ''{}'', json_result = Some ''{}'' \<rparr>"
  using request_raises_iff_not_2xx [of redirecting_lib sample_client "''runs/search''"
          "Some [(''max_results'', ''5'')]"]
        request_raises_iff_not_2xx [of redirecting_lib sample_client "''runs/get''"
          "Some [(''run_id'', ''r1'')]"]
  by (simp add: redirecting_lib_def sample_client_def dumps_if_true_def)

text \<open>
  Claim C6, as stated, fails: with no explicit host, and a process configuration that
  gives a host but no token, the construction succeeds and the client has no credential.
\<close>

theorem init_without_token_counterexample:
  "(init ''api/2.0/mlflow'' None None (Some ''http://localhost:5000'', None)
      :: ((unit, unit) MlflowExportImportException + http_client) \<times> effect list)
   = (Inr \<lparr> api_uri = ''http://localhost:5000/api/2.0/mlflow'', token = None \<rparr>, [ConsultEnvironment])"
  by (simp add: init_def path_join_def)

text \<open>
  Claim C6, amended. With no explicit host the constructor consults the process
  configuration, once. If that gives no host, the construction fails with an
  \<open>MlflowExportImportException\<close> of status 401; if it gives a host, the client is built on
  that host with the token the configuration gives, which may be absent. With an explicit
  host the configuration is not consulted and the client is built on the given host and
  token. In no case does the constructor send a network request.
\<close>

theorem init_fails_iff_no_host:
  "(case (init api host tok env
           :: (('p, 'j) MlflowExportImportException + http_client) \<times> effect list) of
      (res, effs) \<Rightarrow>
        (host = None \<and> fst env = None \<longrightarrow>
           (\<exists>e. res = Inl e \<and> http_status_code e = 401 \<and> details e = None)
           \<and> effs = [ConsultEnvironment])
      \<and> (\<forall>h. host = None \<and> fst env = Some h \<longrightarrow>
           res = Inr \<lparr> api_uri = path_join h api, token = snd env \<rparr>
           \<and> effs = [ConsultEnvironment])
      \<and> (\<forall>h. host = Some h \<longrightarrow>
           res = Inr \<lparr> api_uri = path_join h api, token = tok \<rparr> \<and> effs = [])
      \<and> (\<forall>e \<in> set effs. \<not> is_network e))"
  by (cases env) (auto simp: init_def is_network_def split: option.splits)

theorem init_fails_iff_no_host_witness:
  "(\<exists>e. fst (init ''api/2.0'' None (Some ''t'') (None, Some ''envtoken'')
            :: ((unit, unit) MlflowExportImportException + http_client) \<times> effect list) = Inl e
         \<and> http_status_code e = 401 \<and> details e = None)
   \<and> (init ''api/2.0'' (Some ''https://host/'') (Some ''t'') (None, None)
         :: ((unit, unit) MlflowExportImportException + http_client) \<times> effect list)
       = (Inr \<lparr> api_uri = ''https://host/api/2.0'', token = Some ''t'' \<rparr>, [])"
  using init_fails_iff_no_host [where ?'p = unit and ?'j = unit and api = "''api/2.0''"
          and host = None and tok = "Some ''t''" and env = "(None, Some ''envtoken'')"]
        init_fails_iff_no_host [where ?'p = unit and ?'j = unit and api = "''api/2.0''"
          and host = "Some ''https://host/''" and tok = "Some ''t''" and env = "(None, None)"]
  by (auto simp: path_join_def split: prod.splits)

section \<open>Properties of the copy of a model version\<close>

lemma heap_set_length: "length (heap_set h a k v) = length h"
  by (simp add: heap_set_def)

lemma heap_set_other: "a \<noteq> b \<Longrightarrow> heap_set h a k v ! b = h ! b"
  by (simp add: heap_set_def)

lemma add_tag_length: "length (add_tag src h a key pfx) = length h"
  by (simp add: add_tag_def heap_set_length split: option.splits)

lemma add_tag_other: "a \<noteq> b \<Longrightarrow> add_tag src h a key pfx ! b = h ! b"
  by (simp add: add_tag_def heap_set_other split: option.splits)

lemmas copy_eval =
  accepting_env_def alias_b_rejected_env_def sample_version_def sample_heap_def
  copy_model_version_def create_and_stage_def add_lineage_tags_def add_tag_def
  heap_set_def deepcopy_def alloc_def sanitize_keys_def replace_dot_def dict_get_def
  truthy_def Let_def

text \<open>
  The lineage tags of the sample version for a catalog-style destination: the source
  dictionary at address 0 as it was, the copy with the lineage tags at address 1, and the
  dictionary with the dots replaced at address 2, which is the one returned.
\<close>

lemma sample_lineage:
  "add_lineage_tags accepting_env sample_heap sample_version
     \<lparr> run_id = ''r1'', experiment_id = ''1'', start_time = 0,
       artifact_uri = ''dbfs:/src/r1/artifacts'', data_tags = [(''mlflow.user'', ''alice'')] \<rparr>
     ''cat.sch.m''
   = Inr (2, [[(''team.name'', ''ml'')],
   [(''team.name'', ''ml''), (''mlflow_exim.src_version.name'', ''m''),
    (''mlflow_exim.src_version.version'', ''3''),
    (''mlflow_exim.src_version.run_id'', ''r1''),
    (''mlflow_exim.src_client.tracking_uri'', ''databricks''),
    (''mlflow_exim.mlflow_exim.dst_client.tracking_uri'', ''databricks''),
    (''mlflow_exim.src_run.mlflow.user'', ''alice'')],
   [(''team_name'', ''ml''), (''mlflow_exim_src_version_name'', ''m''),
    (''mlflow_exim_src_version_version'', ''3''),
    (''mlflow_exim_src_version_run_id'', ''r1''),
    (''mlflow_exim_src_client_tracking_uri'', ''databricks''),
    (''mlflow_exim_mlflow_exim_dst_client_tracking_uri'', ''databricks''),
    (''mlflow_exim_src_run_mlflow_user'', ''alice'')]])"
  by (simp add: copy_eval)

text \<open>The keys of a dictionary after a store, and after the dots are replaced.\<close>

lemma keys_dict_set: "set (keys (dict_set d k v)) = insert k (set (keys d))"
proof (induction d)
  case Nil
  then show ?case by (simp add: keys_def)
next
  case (Cons kv d)
  obtain k' v' where kv: "kv = (k', v')" by (cases kv)
  from Cons show ?case unfolding kv keys_def by (cases "k' = k") auto
qed

lemma keys_sanitize_fold:
  "set (keys (foldl (\<lambda>acc (k, v). dict_set acc (replace_dot k) v) acc d))
   = set (keys acc) \<union> replace_dot ` set (keys d)"
proof (induction d arbitrary: acc)
  case Nil
  then show ?case by (simp add: keys_def)
next
  case (Cons kv d)
  obtain k v where kv: "kv = (k, v)" by (cases kv)
  show ?case
    unfolding kv foldl_Cons prod.case Cons.IH keys_dict_set
    by (auto simp: keys_def)
qed

lemma replace_dot_no_dot: "CHR ''.'' \<notin> set (replace_dot k)"
  by (auto simp: replace_dot_def)

lemma sanitize_keys_no_dot: "no_dot_keys (sanitize_keys d)"
proof -
  have "set (keys (sanitize_keys d)) = replace_dot ` set (keys d)"
    unfolding sanitize_keys_def keys_sanitize_fold by (simp add: keys_def)
  then show ?thesis
    unfolding no_dot_keys_def list_all_iff using replace_dot_no_dot by auto
qed

text \<open>
  With lineage tagging, the tags returned for a catalog-style destination have no dot in
  any key.
\<close>

lemma lineage_tags_no_dot:
  assumes "add_lineage_tags X h src_version run0 dst_model_name = Inr (t, h')"
    and "is_unity_catalog_model X dst_model_name"
  shows "no_dot_keys (h' ! t)"
  using assms
  by (auto simp: add_lineage_tags_def deepcopy_def alloc_def Let_def sanitize_keys_no_dot
      split: sum.splits if_splits)

text \<open>
  Claim C1. The claim fails where no lineage tagging is requested: \<open>_copy_model_version\<close>
  then sends \<open>src_version.tags\<close> as they are, and only \<open>_add_lineage_tags\<close> replaces the
  dots for a catalog-style destination. The sample version, whose one tag has the key
  \<open>team.name\<close>, copied to the catalog-style name \<open>cat.sch.m\<close> without lineage tagging, is
  created at the destination with the key \<open>team.name\<close>.
\<close>

theorem copy_without_lineage_keeps_dotted_keys:
  "is_unity_catalog_model accepting_env ''cat.sch.m''
   \<and> created_tags (fst (snd (copy_model_version accepting_env sample_heap sample_version
                              ''cat.sch.m'' None False)))
       = [[(''team.name'', ''ml'')]]
   \<and> \<not> no_dot_keys [(''team.name'', ''ml'')]"
  by (simp add: copy_eval no_dot_keys_def keys_def)

text \<open>The aliases before the first one that fails are set, and the failure ends the loop.\<close>

lemma set_aliases_fail:
  assumes "\<forall>x \<in> set pre. set_registered_model_alias X n x v = None"
    and "set_registered_model_alias X n a v = Some e"
  shows "set_aliases X n v (pre @ a # post) = (Some e, map (\<lambda>x. SetAlias n x v) pre)"
  using assms by (induction pre) simp_all

text \<open>
  Claim C2, as stated, fails: the sample version has the aliases \<open>a\<close>, \<open>b\<close> and \<open>c\<close>, and
  the destination raises \<open>MlflowException\<close> for \<open>b\<close>. Alias \<open>a\<close> is set, the error of \<open>b\<close> is
  printed, and alias \<open>c\<close> is not set; the copy returns the created version.
\<close>

theorem alias_failure_skips_later_aliases_counterexample:
  "copy_model_version alias_b_rejected_env sample_heap sample_version ''m2''
     (Some ''/Shared/exp'') False
   = (Inr (''m2'', ''1''),
      [CreateModelVersion ''m2'' ''dbfs:/dst/dr1/artifacts/model'' ''dr1''
         [(''team.name'', ''ml'')] ''d'',
       TransitionStage ''m2'' ''1'' ''Production'',
       SetAlias ''m2'' ''a'' ''1'',
       Print ''ERROR: error_code: ENDPOINT_NOT_FOUND. Exception: aliases are not supported''],
      sample_heap)
   \<and> (''m2'', ''c'', ''1'') \<notin> set (aliases_set (fst (snd
        (copy_model_version alias_b_rejected_env sample_heap sample_version ''m2''
           (Some ''/Shared/exp'') False))))"
  by (simp add: copy_eval)

text \<open>
  Claim C2, amended. Where the model version has been created (and its stage set) as
  \<open>n\<close>, \<open>v\<close>, and setting an alias \<open>a\<close> of the source version raises \<open>MlflowException\<close>
  after the aliases \<open>pre\<close> before it have been set: the exception is caught by the one
  handler around the loop and printed with its error code, the aliases \<open>pre\<close> stay set,
  the aliases \<open>post\<close> after \<open>a\<close> are not attempted, and the copy goes on to fetch the
  created version from the destination and returns it.
\<close>

theorem alias_failure_is_caught_once:
  assumes "create_and_stage X h src_version dst_model_name dst_experiment_name
             copy_lineage_tags = (Inr (n, v), tr, h')"
    and "mv_aliases src_version = pre @ a # post"
    and "\<forall>x \<in> set pre. set_registered_model_alias X n x v = None"
    and "set_registered_model_alias X n a v = Some (MlflowException code msg)"
  shows "copy_model_version X h src_version dst_model_name dst_experiment_name
           copy_lineage_tags
         = (dst_get_model_version X n v,
            tr @ map (\<lambda>x. SetAlias n x v) pre
               @ [Print (''ERROR: error_code: '' @ code @ ''. Exception: '' @ msg)],
            h')"
  by (simp add: copy_model_version_def assms(1) assms(2) set_aliases_fail [OF assms(3) assms(4)])

theorem alias_failure_is_caught_once_witness:
  "aliases_set (fst (snd (copy_model_version alias_b_rejected_env sample_heap sample_version
      ''m2'' (Some ''/Shared/exp'') False))) = [(''m2'', ''a'', ''1'')]
   \<and> printed (fst (snd (copy_model_version alias_b_rejected_env sample_heap sample_version
      ''m2'' (Some ''/Shared/exp'') False)))
     = [''ERROR: error_code: ENDPOINT_NOT_FOUND. Exception: aliases are not supported'']
   \<and> fst (copy_model_version alias_b_rejected_env sample_heap sample_version
      ''m2'' (Some ''/Shared/exp'') False) = Inr (''m2'', ''1'')"
  using alias_failure_is_caught_once [of alias_b_rejected_env sample_heap sample_version
          "''m2''" "Some ''/Shared/exp''" False "''m2''" "''1''"
          "[CreateModelVersion ''m2'' ''dbfs:/dst/dr1/artifacts/model'' ''dr1''
              [(''team.name'', ''ml'')] ''d'',
            TransitionStage ''m2'' ''1'' ''Production'']"
          sample_heap "[''a'']" "''b''" "[''c'']"
          "''ENDPOINT_NOT_FOUND''" "''aliases are not supported''"]
  by (simp add: copy_eval)

text \<open>
  Claim C9. \<open>_add_lineage_tags\<close> leaves every dictionary that exists when it is called as
  it was, and so the one that \<open>src_version.tags\<close> refers to: what it returns refers to a
  dictionary allocated during the call, and all its stores go to dictionaries allocated
  during the call. (Where it raises, it has stored nothing.)
\<close>

theorem add_lineage_tags_leaves_heap:
  assumes "add_lineage_tags X h src_version run0 dst_model_name = Inr (t, h')"
    and "a < length h"
  shows "h' ! a = h ! a \<and> length h \<le> t \<and> t < length h'"
  using assms
  by (auto simp: add_lineage_tags_def deepcopy_def alloc_def Let_def
        add_tag_length add_tag_other heap_set_length heap_set_other nth_append
      split: if_splits sum.splits)

theorem add_lineage_tags_leaves_heap_witness:
  "(case add_lineage_tags accepting_env sample_heap sample_version
          \<lparr> run_id = ''r1'', experiment_id = ''1'', start_time = 0,
            artifact_uri = ''dbfs:/src/r1/artifacts'',
            data_tags = [(''mlflow.user'', ''alice'')] \<rparr> ''cat.sch.m'' of
      Inl e \<Rightarrow> False
    | Inr (t, h') \<Rightarrow>
        mv_tags sample_version < length sample_heap
        \<and> h' ! mv_tags sample_version = [(''team.name'', ''ml'')]
        \<and> h' ! t \<noteq> h' ! mv_tags sample_version)"
  using add_lineage_tags_leaves_heap [OF sample_lineage, of 0]
  by (simp add: sample_lineage) (simp add: sample_heap_def sample_version_def)

section \<open>Properties of the export of an experiment\<close>

text \<open>The loop over explicit run ids is the loop over the runs that \<open>get_run\<close> gives.\<close>

lemma export_run_ids_eq:
  "export_run_ids X rids output_dir t t_str d nf st
   = export_runs X (map (get_run X) rids) output_dir t t_str d nf st"
  by (induction rids arbitrary: st) (simp_all add: Let_def)

lemma ok_run_ids_export_runs:
  "ok_run_ids (export_runs X rs output_dir t t_str d nf st)
   = ok_run_ids st @ map run_id
       [r \<leftarrow> rs. \<not> skipped t r \<and> export_run X (run_id r) (path_join output_dir (run_id r)) d nf]"
  by (induction rs arbitrary: st) (simp_all add: export_run_step_def skipped_def Let_def)

lemma failed_run_ids_export_runs:
  "failed_run_ids (export_runs X rs output_dir t t_str d nf st)
   = failed_run_ids st @ map run_id
       [r \<leftarrow> rs. \<not> skipped t r \<and> \<not> export_run X (run_id r) (path_join output_dir (run_id r)) d nf]"
  by (induction rs arbitrary: st) (simp_all add: export_run_step_def skipped_def Let_def)

lemma num_runs_exported_export_runs:
  "num_runs_exported (export_runs X rs output_dir t t_str d nf st)
   = num_runs_exported st + length rs"
  by (induction rs arbitrary: st) (simp_all add: export_run_step_def Let_def)

lemma manifests_append: "manifests (xs @ ys) = manifests xs @ manifests ys"
  by (induction xs rule: manifests.induct) simp_all

lemma manifests_export_runs:
  "manifests (events (export_runs X rs output_dir t t_str d nf st)) = manifests (events st)"
  by (induction rs arbitrary: st) (simp_all add: export_run_step_def Let_def manifests_append)

lemma events_export_runs_Nil:
  "events (export_runs X [] output_dir t t_str d nf st) = events st"
  by simp

text \<open>The state after the loop of either mode is the state after the loop over the runs enumerated.\<close>

lemma loop_state:
  "(if truthy run_ids
    then export_run_ids X (the run_ids) output_dir (run_start_time_millis X rst) t_str d nf st
    else export_runs X
           (SearchRunsIterator X (exp_id (get_experiment X e))
              (if truthy_int (run_start_time_millis X rst)
               then Some (StartTimeGreater (the (run_start_time_millis X rst))) else None) d)
           output_dir (run_start_time_millis X rst) t_str d nf st)
   = export_runs X (enumerated_runs X e run_ids rst d) output_dir
       (run_start_time_millis X rst) t_str d nf st"
  by (simp add: enumerated_runs_def export_run_ids_eq Let_def)

text \<open>The manifest that an export writes, and the pair it returns.\<close>

lemma export_experiment_manifest:
  fixes X :: "'nf export_env" and e output_dir run_ids rst d nf
  defines "st \<equiv> export_runs X (enumerated_runs X e run_ids rst d) output_dir
                   (run_start_time_millis X rst) rst d nf
                   \<lparr> ok_run_ids = [], failed_run_ids = [], num_runs_exported = 0,
                     events = [Log INFO (ExportingExperiment (exp_name (get_experiment X e))
                                 (exp_id (get_experiment X e))
                                 (dict_get (exp_tags (get_experiment X e)) ''mlflow.experimentType'')
                                 (lifecycle_stage (get_experiment X e)))] \<rparr>"
  shows "manifests (snd (export_experiment X e output_dir run_ids rst d nf))
         = [(\<lparr> attr_experiment =
                 \<lparr> dct_experiment = (get_experiment X e)
                     \<lparr> exp_tags := sort_key fst (exp_tags (get_experiment X e)) \<rparr>,
                   dct_creation_time = fmt_ts_millis X (creation_time (get_experiment X e)),
                   dct_last_update_time = fmt_ts_millis X (last_update_time (get_experiment X e)) \<rparr>,
               attr_runs = ok_run_ids st \<rparr>,
             \<lparr> num_total_runs = num_runs_exported st,
               num_ok_runs = length (ok_run_ids st),
               num_failed_runs = length (failed_run_ids st),
               failed_runs = failed_run_ids st \<rparr>)]"
    and "fst (export_experiment X e output_dir run_ids rst d nf)
         = (length (ok_run_ids st), length (failed_run_ids st))"
  unfolding st_def export_experiment_def Let_def loop_state
  by (simp_all add: manifests_append manifests_export_runs)

lemma length_filter_split:
  "length [x \<leftarrow> xs. P x \<and> Q x] + length [x \<leftarrow> xs. P x \<and> \<not> Q x] = length [x \<leftarrow> xs. P x]"
  by (induction xs) simp_all

lemma length_filter_eq_iff: "length (filter P xs) = length xs \<longleftrightarrow> (\<forall>x \<in> set xs. P x)"
proof (induction xs)
  case Nil
  then show ?case by simp
next
  case (Cons x xs)
  have le: "length (filter P xs) \<le> length xs" by (rule length_filter_le)
  show ?case
  proof (cases "P x")
    case True
    then show ?thesis using Cons by simp
  next
    case False
    from le have "length (filter P xs) \<noteq> Suc (length xs)" by arith
    with False show ?thesis by simp
  qed
qed

end
